theory Spec2Isabelle
  imports Complex_Main "HOL-Library.Sublist"
begin

section \<open>Text\<close>

text \<open>
  Python text is modelled as \<open>string\<close>; a character stands for a code point below 256.
  \<open>isspace\<close> is Python's \<open>str.isspace\<close> on these code points, and \<open>strip\<close> is
  \<open>str.strip()\<close> without argument: whitespace is removed at both ends.
\<close>

definition isspace :: "char \<Rightarrow> bool" where
  "isspace c = ((of_char c :: nat) \<in> {9, 10, 11, 12, 13, 28, 29, 30, 31, 32, 133, 160})"

definition strip :: "string \<Rightarrow> string" where
  "strip s = rev (dropWhile isspace (rev (dropWhile isspace s)))"

text \<open>\<open>sep.join(xs)\<close>.\<close>

fun join :: "string \<Rightarrow> string list \<Rightarrow> string" where
  "join sep [] = []"
| "join sep [x] = x"
| "join sep (x # y # ys) = x @ sep @ join sep (y # ys)"

text \<open>\<open>str(n)\<close> for a non-negative integer: its decimal digits.\<close>

definition digit_char :: "nat \<Rightarrow> char" where
  "digit_char d = char_of (48 + d)"

function str_nat :: "nat \<Rightarrow> string" where
  "str_nat n = (if n < 10 then [digit_char n] else str_nat (n div 10) @ [digit_char (n mod 10)])"
  by pat_completeness auto
termination
  by (relation "measure id") auto

declare str_nat.simps [simp del]

section \<open>Exceptions\<close>

text \<open>
  Every fault of the backend is a Python \<open>Exception\<close>; the worker only ever reads its
  \<open>str(e)\<close>, so an exception is identified with that text, whatever its class.
\<close>

datatype exception = Exception string

fun str_exception :: "exception \<Rightarrow> string" where
  "str_exception (Exception m) = m"

text \<open>
  The \<open>KeyError\<close> that \<open>response["text"]\<close> raises when the response has no such key. Its
  \<open>str\<close> is \<open>repr('text')\<close>: the four letters between two single quotes.
\<close>

definition KeyError_text :: exception where
  "KeyError_text = Exception ([CHR 0x27] @ ''text'' @ [CHR 0x27])"

section \<open>LLMWorker\<close>

text \<open>The three signals of the worker thread, each carrying a text.\<close>

datatype signal = progress string | finished string | error string

record LLMWorker =
  question :: string
  model_name :: string
  temperature :: real
  csv_context :: "string option"

text \<open>\<open>LLMWorker.__init__\<close>; \<open>csv_context\<close> defaults to \<open>None\<close>.\<close>

definition LLMWorker_init :: "string \<Rightarrow> string \<Rightarrow> real \<Rightarrow> string option \<Rightarrow> LLMWorker" where
  "LLMWorker_init q m t c = \<lparr>question = q, model_name = m, temperature = t, csv_context = c\<rparr>"

text \<open>
  The language-model backend is external. \<open>OllamaLLM\<close> is the constructor call
  \<open>OllamaLLM(model=..., temperature=...)\<close>, which returns a model object or raises.
  \<open>chain_invoke llm p\<close> is \<open>LLMChain(llm=llm, prompt=prompt).invoke(inputs)\<close> where
  \<open>p\<close> is the prompt template filled with the inputs: it returns the response
  dictionary or raises.
\<close>

record 'llm backend =
  OllamaLLM :: "string \<Rightarrow> real \<Rightarrow> exception + 'llm"
  chain_invoke :: "'llm \<Rightarrow> string \<Rightarrow> exception + (string \<rightharpoonup> string)"

text \<open>
  The two prompt templates of \<open>run\<close>, filled with their input variables. The template
  text is fixed and each \<open>{variable}\<close> is replaced by the value given for it.
\<close>

definition csv_template :: "string \<Rightarrow> string \<Rightarrow> string" where
  "csv_template c q =
     ''CSV Data Context:\<newline>'' @ c @
     ''\<newline>\<newline>Question about the data: '' @ q @
     ''\<newline>\<newline>Provide a clear and detailed answer based on the CSV data above:''"

definition question_template :: "string \<Rightarrow> string" where
  "question_template q = ''Question: '' @ q @ ''\<newline>Detailed Answer:''"

text \<open>
  The prompt of a worker: \<open>if self.csv_context:\<close> chooses the template, and Python
  takes both \<open>None\<close> and the empty text as false.
\<close>

definition prompt_text :: "LLMWorker \<Rightarrow> string" where
  "prompt_text w =
     (case csv_context w of
        None \<Rightarrow> question_template (question w)
      | Some c \<Rightarrow>
          if c \<noteq> [] then csv_template c (question w)
          else question_template (question w))"

text \<open>
  The body of the \<open>try\<close> block of \<open>run\<close> after the first \<open>progress.emit\<close>, up to the
  value \<open>response["text"]\<close> handed to \<open>finished.emit\<close>: \<open>Inl e\<close> when \<open>e\<close> is raised.
\<close>

definition run_try :: "'llm backend \<Rightarrow> LLMWorker \<Rightarrow> exception + string" where
  "run_try be w =
     (case OllamaLLM be (model_name w) (temperature w) of
        Inl e \<Rightarrow> Inl e
      | Inr llm \<Rightarrow>
          (case chain_invoke be llm (prompt_text w) of
             Inl e \<Rightarrow> Inl e
           | Inr response \<Rightarrow>
               (case response ''text'' of
                  None \<Rightarrow> Inl KeyError_text
                | Some t \<Rightarrow> Inr t)))"

text \<open>
  \<open>LLMWorker.run\<close>: the signals the worker emits, in the order of emission. The
  \<open>except Exception as e\<close> clause turns a raised exception into \<open>error.emit(str(e))\<close>.
\<close>

definition run :: "'llm backend \<Rightarrow> LLMWorker \<Rightarrow> signal list" where
  "run be w =
     progress ''Initializing LLM...'' #
     (case run_try be w of
        Inl e \<Rightarrow> [error (str_exception e)]
      | Inr t \<Rightarrow> [finished t])"

fun is_progress :: "signal \<Rightarrow> bool" where
  "is_progress (progress m) = True"
| "is_progress (finished r) = False"
| "is_progress (error e) = False"

fun is_error :: "signal \<Rightarrow> bool" where
  "is_error (progress m) = False"
| "is_error (finished r) = False"
| "is_error (error e) = True"

text \<open>
  The order \<open>progress* (finished | error)\<close>: every signal but the last is a progress
  signal and the last one is terminal.
\<close>

fun strict_order :: "signal list \<Rightarrow> bool" where
  "strict_order [] = False"
| "strict_order [s] = (\<not> is_progress s)"
| "strict_order (s # t # ts) = (is_progress s \<and> strict_order (t # ts))"

section \<open>LLMInterface\<close>

text \<open>
  The loaded pandas \<open>DataFrame\<close> is external; \<open>process_question\<close> reads it through
  four views only: \<open>df.shape\<close>, \<open>df.columns\<close>, \<open>df.head().to_string()\<close> and
  \<open>df.describe().to_string()\<close>.
\<close>

record DataFrame =
  shape :: "nat \<times> nat"
  columns :: "string list"
  head_to_string :: string
  describe_to_string :: string

text \<open>The items of the two selectors (neither is editable) and their \<open>currentText()\<close>.\<close>

datatype model_item = Deepseek_r1_7b | Codellama_7b | Deepseek_r1_1_5b

fun model_text :: "model_item \<Rightarrow> string" where
  "model_text Deepseek_r1_7b = ''deepseek-r1:7b''"
| "model_text Codellama_7b = ''codellama:7b''"
| "model_text Deepseek_r1_1_5b = ''deepseek-r1:1.5b''"

datatype temp_item = T_0_0 | T_0_2 | T_0_4 | T_0_6 | T_0_8 | T_1_0

fun temp_text :: "temp_item \<Rightarrow> string" where
  "temp_text T_0_0 = ''0.0''"
| "temp_text T_0_2 = ''0.2''"
| "temp_text T_0_4 = ''0.4''"
| "temp_text T_0_6 = ''0.6''"
| "temp_text T_0_8 = ''0.8''"
| "temp_text T_1_0 = ''1.0''"

text \<open>\<open>float(self.temp_selector.currentText())\<close>: the decimal the item's text denotes.\<close>

fun float_of_item :: "temp_item \<Rightarrow> real" where
  "float_of_item T_0_0 = 0"
| "float_of_item T_0_2 = 2 / 10"
| "float_of_item T_0_4 = 4 / 10"
| "float_of_item T_0_6 = 6 / 10"
| "float_of_item T_0_8 = 8 / 10"
| "float_of_item T_1_0 = 1"

text \<open>
  The window, as far as \<open>process_question\<close>, the three signal handlers, \<open>upload_csv\<close>
  and \<open>create_plot\<close> read or write it: the loaded data, the text and the enabled flag
  of the widgets, the progress bar, and the worker reference.
\<close>

record LLMInterface =
  df :: "DataFrame option"
  input_area :: string
  input_area_enabled :: bool
  submit_button_enabled :: bool
  model_selector :: model_item
  model_selector_enabled :: bool
  temp_selector :: temp_item
  temp_selector_enabled :: bool
  progress_range :: "int \<times> int"
  progress_visible :: bool
  status_label :: string
  output_area :: string
  worker :: "LLMWorker option"

text \<open>
  \<open>LLMInterface.__init__\<close>. Both selectors show their first item:
  \<open>setCurrentText('0.7')\<close> names no item of the temperature selector and selects nothing.
\<close>

definition LLMInterface_init :: LLMInterface where
  "LLMInterface_init =
     \<lparr>df = None, input_area = [], input_area_enabled = True, submit_button_enabled = True,
      model_selector = Deepseek_r1_7b, model_selector_enabled = True,
      temp_selector = T_0_0, temp_selector_enabled = True,
      progress_range = (0, 100), progress_visible = False,
      status_label = [], output_area = [], worker = None\<rparr>"

text \<open>The text \<open>process_question\<close> builds from the loaded data (the f-string).\<close>

definition csv_context_text :: "DataFrame \<Rightarrow> string" where
  "csv_context_text d =
     ''The CSV file has '' @ str_nat (fst (shape d)) @ '' rows and '' @
     str_nat (snd (shape d)) @ '' columns.\<newline>Column names: '' @
     join '', '' (columns d) @
     ''\<newline>\<newline>First few rows of the data:\<newline>'' @ head_to_string d @
     ''\<newline>\<newline>Summary statistics:\<newline>'' @ describe_to_string d"

text \<open>
  \<open>process_question\<close> returns the window and the worker it has created, connected to
  the three handlers and started; \<open>None\<close> when it returns early.
\<close>

definition process_question :: "LLMInterface \<Rightarrow> LLMInterface \<times> LLMWorker option" where
  "process_question ui =
     (let q = strip (input_area ui) in
      if q = [] then (ui, None)
      else
        let ui1 = ui\<lparr>submit_button_enabled := False, input_area_enabled := False,
                     model_selector_enabled := False, temp_selector_enabled := False,
                     progress_range := (0, 0), progress_visible := True\<rparr>;
            c = (case df ui of None \<Rightarrow> None | Some d \<Rightarrow> Some (csv_context_text d));
            w = LLMWorker_init q (model_text (model_selector ui))
                  (float_of_item (temp_selector ui)) c
        in (ui1\<lparr>worker := Some w\<rparr>, Some w))"

definition reset_ui :: "LLMInterface \<Rightarrow> LLMInterface" where
  "reset_ui ui =
     ui\<lparr>submit_button_enabled := True, input_area_enabled := True,
        model_selector_enabled := True, temp_selector_enabled := True,
        progress_visible := False\<rparr>"

definition handle_response :: "string \<Rightarrow> LLMInterface \<Rightarrow> LLMInterface" where
  "handle_response response ui =
     reset_ui (ui\<lparr>output_area := response, status_label := ''Response complete''\<rparr>)"

definition handle_error :: "string \<Rightarrow> LLMInterface \<Rightarrow> LLMInterface" where
  "handle_error error_message ui =
     reset_ui (ui\<lparr>output_area := ''Error: '' @ error_message,
                  status_label := ''Error occurred''\<rparr>)"

definition handle_progress :: "string \<Rightarrow> LLMInterface \<Rightarrow> LLMInterface" where
  "handle_progress message ui = ui\<lparr>status_label := message\<rparr>"

text \<open>
  The connections \<open>process_question\<close> makes: each signal of a worker runs its handler. A
  handler receives the text of the signal and nothing else.
\<close>

fun deliver :: "signal \<Rightarrow> LLMInterface \<Rightarrow> LLMInterface" where
  "deliver (finished r) ui = handle_response r ui"
| "deliver (error e) ui = handle_error e ui"
| "deliver (progress m) ui = handle_progress m ui"

text \<open>
  \<open>upload_csv\<close>, by what the file dialog and \<open>pd.read_csv\<close> do: the dialog is
  cancelled, the file loads, or loading it raises.
\<close>

datatype upload = Cancelled | Loaded DataFrame | Load_failed exception

fun upload_csv :: "upload \<Rightarrow> LLMInterface \<Rightarrow> LLMInterface" where
  "upload_csv Cancelled ui = ui"
| "upload_csv (Loaded d) ui = ui\<lparr>df := Some d, status_label := ''CSV file loaded successfully''\<rparr>"
| "upload_csv (Load_failed e) ui =
     ui\<lparr>status_label := ''Error loading CSV: '' @ str_exception e, df := None\<rparr>"

text \<open>\<open>create_plot\<close>, by what the plotting library does: it raises \<open>e\<close> or succeeds.\<close>

definition create_plot :: "exception option \<Rightarrow> LLMInterface \<Rightarrow> LLMInterface" where
  "create_plot r ui =
     (case df ui of
        None \<Rightarrow> ui\<lparr>status_label := ''Please load a CSV file first''\<rparr>
      | Some d \<Rightarrow>
          (case r of
             None \<Rightarrow> ui\<lparr>status_label := ''Plot created successfully''\<rparr>
           | Some e \<Rightarrow> ui\<lparr>status_label := ''Error creating plot: '' @ str_exception e\<rparr>))"

section \<open>The running application\<close>

text \<open>
  The window together with the worker threads started so far, oldest first: for each
  one the signals it has still to deliver. Signals of one worker reach the handlers in
  the order of emission; those of different workers interleave freely.
\<close>

record app =
  window :: LLMInterface
  threads :: "signal list list"

definition app_init :: app where
  "app_init = \<lparr>window = LLMInterface_init, threads = []\<rparr>"

text \<open>
  A call of \<open>process_question\<close> in the running application: a created worker is started
  and runs against the backend. The call replaces \<open>self.worker\<close> and leaves the earlier
  workers and their connections alone.
\<close>

definition submit :: "'llm backend \<Rightarrow> app \<Rightarrow> app" where
  "submit be a =
     (case process_question (window a) of
        (ui, None) \<Rightarrow> a\<lparr>window := ui\<rparr>
      | (ui, Some w) \<Rightarrow> \<lparr>window = ui, threads = threads a @ [run be w]\<rparr>)"

text \<open>
  What can happen to the application: the user clicks the submit button, types into the
  question field, loads a file or asks for a plot, or the next signal of worker \<open>i\<close> is
  delivered. A disabled button emits no \<open>clicked\<close> and a disabled text field takes no
  input.
\<close>

datatype event =
  Click | Edit string | Upload upload | Plot "exception option" | Deliver nat

fun step :: "'llm backend \<Rightarrow> app \<Rightarrow> event \<Rightarrow> app" where
  "step be a Click = (if submit_button_enabled (window a) then submit be a else a)"
| "step be a (Edit s) =
     (if input_area_enabled (window a) then a\<lparr>window := (window a)\<lparr>input_area := s\<rparr>\<rparr> else a)"
| "step be a (Upload u) = a\<lparr>window := upload_csv u (window a)\<rparr>"
| "step be a (Plot r) = a\<lparr>window := create_plot r (window a)\<rparr>"
| "step be a (Deliver i) =
     (if i < length (threads a) then
        (case threads a ! i of
           [] \<Rightarrow> a
         | s # rest \<Rightarrow> \<lparr>window = deliver s (window a), threads = (threads a)[i := rest]\<rparr>)
      else a)"

text \<open>
  The claim that a superseded worker is silent: delivering a signal of any worker but
  the latest leaves the window as it is.
\<close>

definition superseded_silent :: "'llm backend \<Rightarrow> app \<Rightarrow> bool" where
  "superseded_silent be a =
     list_all (\<lambda>i. window (step be a (Deliver i)) = window a) [0 ..< length (threads a) - 1]"

text \<open>Some worker has signals still to be delivered.\<close>

definition pending :: "app \<Rightarrow> bool" where
  "pending a = list_ex (\<lambda>q. q \<noteq> []) (threads a)"

text \<open>
  At most one worker is in flight: every worker but the latest has delivered all its
  signals, and while the latest has not, its remaining signals end with its terminal
  signal and the submit button is disabled.
\<close>

definition single_flight :: "app \<Rightarrow> bool" where
  "single_flight a =
     (list_all (\<lambda>q. q = []) (butlast (threads a)) \<and>
      (threads a = [] \<or> last (threads a) = [] \<or>
       (strict_order (last (threads a)) \<and> \<not> submit_button_enabled (window a))))"

section \<open>Example inputs\<close>

text \<open>A backend that answers with the prompt it was given, and one that is unreachable.\<close>

definition echo :: "unit backend" where
  "echo = \<lparr>OllamaLLM = (\<lambda>m t. Inr ()), chain_invoke = (\<lambda>llm p. Inr [''text'' \<mapsto> p])\<rparr>"

definition refusing :: "unit backend" where
  "refusing =
     \<lparr>OllamaLLM = (\<lambda>m t. Inr ()),
      chain_invoke = (\<lambda>llm p. Inl (Exception ''connection refused''))\<rparr>"

text \<open>
  A backend whose model object cannot be made, one whose response has no \<open>text\<close>
  entry, and one that answers with the empty text.
\<close>

definition no_model :: "unit backend" where
  "no_model =
     \<lparr>OllamaLLM = (\<lambda>m t. Inl (Exception ''model not found'')),
      chain_invoke = (\<lambda>llm p. Inr [''text'' \<mapsto> p])\<rparr>"

definition malformed :: "unit backend" where
  "malformed = \<lparr>OllamaLLM = (\<lambda>m t. Inr ()), chain_invoke = (\<lambda>llm p. Inr Map.empty)\<rparr>"

definition silent :: "unit backend" where
  "silent = \<lparr>OllamaLLM = (\<lambda>m t. Inr ()), chain_invoke = (\<lambda>llm p. Inr [''text'' \<mapsto> []])\<rparr>"

definition w0 :: LLMWorker where
  "w0 = LLMWorker_init ''Q'' ''codellama:7b'' 0 None"

definition d0 :: DataFrame where
  "d0 = \<lparr>shape = (10, 2), columns = [''a'', ''b''], head_to_string = ''H'',
          describe_to_string = ''S''\<rparr>"

text \<open>
  The user types a question, submits it and loads a file while the worker runs.
\<close>

definition running_app :: app where
  "running_app = foldl (step echo) app_init [Edit ''Q'', Click, Upload (Loaded d0)]"

text \<open>
  \<open>process_question\<close> is then called again while the first worker runs, and the
  signals are delivered in the order: progress of the first worker, progress and result
  of the second. The result of the first worker is still to come.
\<close>

definition superseded_app :: app where
  "superseded_app =
     foldl (step echo) (submit echo running_app) [Deliver 0, Deliver 1, Deliver 1]"

section \<open>Auxiliary facts\<close>

lemma strip_all_space:
  assumes "\<forall>c\<in>set s. isspace c"
  shows "strip s = []"
proof -
  from assms have "dropWhile isspace s = []" by simp
  then show ?thesis by (simp add: strip_def del: dropWhile_eq_Nil_conv)
qed

lemma strip_Q: "strip ''Q'' = ''Q''"
  by (simp add: strip_def isspace_def)

lemma strip_Q_padded: "strip '' Q '' = ''Q''"
  by (simp add: strip_def isspace_def)

lemma str_nat_10: "str_nat 10 = ''10''"
  by code_simp

lemma str_nat_2: "str_nat 2 = ''2''"
  by code_simp

lemma csv_context_text_nonempty: "csv_context_text d \<noteq> []"
  by (simp add: csv_context_text_def)

lemma run_shape:
  "\<exists>s. run be w = [progress ''Initializing LLM...'', s] \<and> \<not> is_progress s"
  by (simp add: run_def split: sum.split)

lemmas eval_defs =
  app_init_def LLMInterface_init_def submit_def process_question_def Let_def
  LLMWorker_init_def run_def run_try_def echo_def prompt_text_def question_template_def
  csv_template_def csv_context_text_def d0_def str_nat_10 str_nat_2 strip_Q
  handle_response_def handle_error_def handle_progress_def reset_ui_def

lemma running_app_eq:
  "running_app =
     \<lparr>window = LLMInterface_init
        \<lparr>df := Some d0, input_area := ''Q'', input_area_enabled := False,
         submit_button_enabled := False, model_selector_enabled := False,
         temp_selector_enabled := False, progress_range := (0, 0), progress_visible := True,
         status_label := ''CSV file loaded successfully'',
         worker := Some (LLMWorker_init ''Q'' ''deepseek-r1:7b'' 0 None)\<rparr>,
      threads =
        [[progress ''Initializing LLM...'', finished ''Question: Q\<newline>Detailed Answer:'']]\<rparr>"
  by (simp add: running_app_def eval_defs)

subsection \<open>The submit button as a gate\<close>

lemma single_flight_init: "single_flight app_init"
  by (simp add: single_flight_def app_init_def)

lemma process_question_cases:
  "process_question ui = (ui, None) \<or>
   (\<exists>ui' w. process_question ui = (ui', Some w) \<and> \<not> submit_button_enabled ui')"
  by (simp add: process_question_def Let_def)

lemma single_flight_submit:
  assumes "single_flight a" and "submit_button_enabled (window a)"
  shows "single_flight (submit be a)"
proof -
  from assms have idle: "list_all (\<lambda>q. q = []) (threads a)"
    by (cases "threads a" rule: rev_cases) (auto simp: single_flight_def)
  from process_question_cases [of "window a"] show ?thesis
  proof
    assume "process_question (window a) = (window a, None)"
    with assms(1) show ?thesis by (simp add: submit_def single_flight_def)
  next
    assume "\<exists>ui' w. process_question (window a) = (ui', Some w) \<and> \<not> submit_button_enabled ui'"
    then obtain ui' w where pq: "process_question (window a) = (ui', Some w)"
      and dis: "\<not> submit_button_enabled ui'" by blast
    from run_shape [of be w] have so: "strict_order (run be w)" by auto
    have "submit be a = \<lparr>window = ui', threads = threads a @ [run be w]\<rparr>"
      using pq by (simp add: submit_def)
    with idle dis so show ?thesis
      by (simp add: single_flight_def)
  qed
qed

lemma strict_order_tail:
  "strict_order (s # rest) \<Longrightarrow> rest \<noteq> [] \<Longrightarrow> is_progress s \<and> strict_order rest"
  by (cases rest) simp_all

lemma deliver_progress_button:
  "is_progress s \<Longrightarrow> submit_button_enabled (deliver s ui) = submit_button_enabled ui"
  by (cases s) (simp_all add: handle_progress_def)

lemma single_flight_deliver:
  assumes "single_flight a"
  shows "single_flight (step be a (Deliver i))"
proof (cases "i < length (threads a)")
  case False
  with assms show ?thesis by simp
next
  case True
  show ?thesis
  proof (cases "threads a ! i")
    case Nil
    with assms True show ?thesis by simp
  next
    case (Cons s rest)
    from True obtain qs q where ts: "threads a = qs @ [q]"
      by (cases "threads a" rule: rev_cases) auto
    from assms ts have qs: "list_all (\<lambda>q. q = []) qs" by (simp add: single_flight_def)
    have i: "i = length qs"
    proof (rule ccontr)
      assume "i \<noteq> length qs"
      with True ts have "i < length qs" by simp
      with qs ts have "threads a ! i = []" by (simp add: nth_append list_all_length)
      with Cons show False by simp
    qed
    with ts Cons have q: "q = s # rest" by simp
    with assms ts have so: "strict_order (s # rest)"
      and dis: "\<not> submit_button_enabled (window a)"
      by (simp_all add: single_flight_def)
    have st: "step be a (Deliver i) = \<lparr>window = deliver s (window a), threads = qs @ [rest]\<rparr>"
      using True Cons ts i by simp
    show ?thesis
    proof (cases "rest = []")
      case True
      with qs show ?thesis unfolding st by (simp add: single_flight_def)
    next
      case False
      with so have "is_progress s" and "strict_order rest" by (auto dest: strict_order_tail)
      with qs dis show ?thesis
        unfolding st by (simp add: single_flight_def deliver_progress_button)
    qed
  qed
qed

lemma single_flight_step:
  assumes "single_flight a"
  shows "single_flight (step be a ev)"
proof (cases ev)
  case Click
  with assms show ?thesis by (simp add: single_flight_submit)
next
  case (Edit s)
  with assms show ?thesis by (simp add: single_flight_def)
next
  case (Upload u)
  with assms show ?thesis by (cases u) (simp_all add: single_flight_def)
next
  case (Plot r)
  with assms show ?thesis by (simp add: single_flight_def create_plot_def split: option.split)
next
  case (Deliver i)
  with assms show ?thesis by (simp only: single_flight_deliver)
qed

lemma single_flight_reachable: "single_flight (foldl (step be) app_init evs)"
  by (induction evs rule: rev_induct) (simp_all add: single_flight_init single_flight_step)

lemma single_flight_pending:
  assumes "single_flight a" and "pending a"
  shows "\<not> submit_button_enabled (window a)"
proof -
  from assms(2) obtain qs q where ts: "threads a = qs @ [q]"
    by (cases "threads a" rule: rev_cases) (auto simp: pending_def)
  from assms(1) ts have qs: "list_all (\<lambda>q. q = []) qs" by (simp add: single_flight_def)
  with assms(2) ts have "q \<noteq> []" by (auto simp: pending_def list_ex_iff list_all_iff)
  with assms(1) ts show ?thesis by (simp add: single_flight_def)
qed

lemma single_flight_silent:
  assumes "single_flight a"
  shows "superseded_silent be a"
proof -
  have "window (step be a (Deliver i)) = window a" if "i < length (threads a) - 1" for i
  proof -
    from that obtain qs q where ts: "threads a = qs @ [q]"
      by (cases "threads a" rule: rev_cases) auto
    from assms ts have "list_all (\<lambda>q. q = []) qs" by (simp add: single_flight_def)
    with that ts have "threads a ! i = []" by (simp add: nth_append list_all_length)
    then show ?thesis by simp
  qed
  then show ?thesis by (simp add: superseded_silent_def list_all_iff)
qed

section \<open>Properties of the worker\<close>

text \<open>
  C1. Whatever the backend does, the signals a worker emits are, in order, progress
  signals followed by exactly one terminal signal (finished or error), which is the last
  signal: nothing is emitted after it.
\<close>

theorem run_strict_order: "strict_order (run be w)"
  using run_shape [of be w] by auto

text \<open>
  C2, as stated, fails for the empty backend response, which the claim counts among the
  faults that end in a failed notification. A response whose text is empty raises
  nothing: the worker delivers the empty text through \<open>finished\<close> and emits no error
  signal.
\<close>

theorem empty_response_not_failed:
  "run silent w0 = [progress ''Initializing LLM...'', finished []] \<and>
   \<not> list_ex is_error (run silent w0)"
  by (simp add: run_def run_try_def silent_def)

text \<open>
  C2, amended. Every exception raised while the worker talks to the backend is caught
  in \<open>run\<close> and becomes the one error signal, last in the list and carrying \<open>str(e)\<close>:
  whether the model object cannot be made, the chain invocation raises (no connection,
  no such model), or the response has no \<open>text\<close> entry, where the text is that of the
  \<open>KeyError\<close>. \<open>run\<close> returns its signals in each case; no exception leaves it. An
  empty response text is no fault: it is delivered by \<open>finished\<close>.
\<close>

theorem run_fault_reported:
  "(OllamaLLM be (model_name w) (temperature w) = Inl e \<longrightarrow>
      run be w = [progress ''Initializing LLM...'', error (str_exception e)]) \<and>
   (OllamaLLM be (model_name w) (temperature w) = Inr llm \<and>
    chain_invoke be llm (prompt_text w) = Inl e \<longrightarrow>
      run be w = [progress ''Initializing LLM...'', error (str_exception e)]) \<and>
   (OllamaLLM be (model_name w) (temperature w) = Inr llm \<and>
    chain_invoke be llm (prompt_text w) = Inr r \<and> r ''text'' = None \<longrightarrow>
      run be w =
        [progress ''Initializing LLM...'', error ([CHR 0x27] @ ''text'' @ [CHR 0x27])]) \<and>
   (OllamaLLM be (model_name w) (temperature w) = Inr llm \<and>
    chain_invoke be llm (prompt_text w) = Inr r \<and> r ''text'' = Some [] \<longrightarrow>
      run be w = [progress ''Initializing LLM...'', finished []])"
  by (simp add: run_def run_try_def KeyError_text_def)

theorem run_fault_reported_witness:
  "run no_model w0 = [progress ''Initializing LLM...'', error ''model not found''] \<and>
   run refusing w0 = [progress ''Initializing LLM...'', error ''connection refused''] \<and>
   run malformed w0 =
     [progress ''Initializing LLM...'', error ([CHR 0x27] @ ''text'' @ [CHR 0x27])] \<and>
   run silent w0 = [progress ''Initializing LLM...'', finished []]"
proof -
  have "run no_model w0 = [progress ''Initializing LLM...'', error ''model not found'']"
    using run_fault_reported [of no_model w0 "Exception ''model not found''"]
    by (simp add: no_model_def)
  moreover
  have "run refusing w0 = [progress ''Initializing LLM...'', error ''connection refused'']"
    using run_fault_reported [of refusing w0 "Exception ''connection refused''" "()"]
    by (simp add: refusing_def)
  moreover
  have "run malformed w0 =
      [progress ''Initializing LLM...'', error ([CHR 0x27] @ ''text'' @ [CHR 0x27])]"
    using run_fault_reported [of malformed w0 _ "()" Map.empty]
    by (simp add: malformed_def)
  moreover
  have "run silent w0 = [progress ''Initializing LLM...'', finished []]"
    using run_fault_reported [of silent w0 _ "()" "[''text'' \<mapsto> []]"]
    by (simp add: silent_def)
  ultimately show ?thesis by simp
qed

text \<open>
  C4. When the backend succeeds and its response holds the text \<open>T\<close>, the worker emits
  its progress signal and then \<open>finished T\<close>, once and with \<open>T\<close> unchanged.
\<close>

theorem run_success_finished:
  assumes "OllamaLLM be (model_name w) (temperature w) = Inr llm"
    and "chain_invoke be llm (prompt_text w) = Inr r"
    and "r ''text'' = Some T"
  shows "run be w = [progress ''Initializing LLM...'', finished T]"
  using assms by (simp add: run_def run_try_def)

theorem run_success_finished_witness:
  "run echo w0 =
     [progress ''Initializing LLM...'', finished ''Question: Q\<newline>Detailed Answer:'']"
  using run_success_finished [of echo w0 "()" "[''text'' \<mapsto> prompt_text w0]" "prompt_text w0"]
  by (simp add: echo_def w0_def LLMWorker_init_def prompt_text_def question_template_def)

text \<open>
  C10. A worker given the empty text as dataset context renders the no-dataset prompt,
  \<open>Question: \<close>, its question, a line break and \<open>Detailed Answer:\<close>, which is the
  prompt of a worker given no dataset context; and it emits the same signals.
\<close>

theorem empty_context_as_none:
  "prompt_text (w\<lparr>csv_context := Some []\<rparr>) =
     ''Question: '' @ question w @ ''\<newline>Detailed Answer:'' \<and>
   prompt_text (w\<lparr>csv_context := None\<rparr>) =
     ''Question: '' @ question w @ ''\<newline>Detailed Answer:'' \<and>
   prompt_text (w\<lparr>csv_context := Some []\<rparr>) = prompt_text (w\<lparr>csv_context := None\<rparr>) \<and>
   run be (w\<lparr>csv_context := Some []\<rparr>) = run be (w\<lparr>csv_context := None\<rparr>)"
proof -
  have e: "prompt_text (w\<lparr>csv_context := Some []\<rparr>) =
      ''Question: '' @ question w @ ''\<newline>Detailed Answer:''"
    by (simp add: prompt_text_def question_template_def)
  have n: "prompt_text (w\<lparr>csv_context := None\<rparr>) =
      ''Question: '' @ question w @ ''\<newline>Detailed Answer:''"
    by (simp add: prompt_text_def question_template_def)
  have r: "run be (w\<lparr>csv_context := Some []\<rparr>) = run be (w\<lparr>csv_context := None\<rparr>)"
    unfolding run_def run_try_def e n by simp
  from e n r show ?thesis by simp
qed

section \<open>Properties of the window\<close>

text \<open>
  C3. A question field that holds nothing but whitespace (or nothing at all) makes
  \<open>process_question\<close> return at once: the window is unchanged and no worker is created,
  so the running application is unchanged and the backend is not called.
\<close>

theorem blank_question_rejected:
  assumes "\<forall>c\<in>set (input_area (window a)). isspace c"
  shows "process_question (window a) = (window a, None) \<and> submit be a = a"
  using assms by (simp add: process_question_def submit_def strip_all_space)

theorem blank_question_rejected_witness:
  "process_question (window (app_init\<lparr>window := LLMInterface_init\<lparr>input_area := ''  ''\<rparr>\<rparr>)) =
     (LLMInterface_init\<lparr>input_area := ''  ''\<rparr>, None) \<and>
   submit echo (app_init\<lparr>window := LLMInterface_init\<lparr>input_area := ''  ''\<rparr>\<rparr>) =
     app_init\<lparr>window := LLMInterface_init\<lparr>input_area := ''  ''\<rparr>\<rparr>"
  using blank_question_rejected
    [of "app_init\<lparr>window := LLMInterface_init\<lparr>input_area := ''  ''\<rparr>\<rparr>" echo]
  by (simp add: isspace_def)

text \<open>
  C5. With a loaded dataset and a question that is not blank, \<open>process_question\<close> creates
  a worker whose prompt holds, in this order: the row and column counts, the column
  names joined by commas, the first rows, the summary statistics, the trimmed question,
  and the instruction to answer from the data. For 10 rows and the columns \<open>a\<close> and
  \<open>b\<close> the prompt contains \<open>10 rows\<close>, \<open>a, b\<close> and the question.
\<close>

theorem process_question_csv_prompt:
  assumes "df ui = Some d" and "strip (input_area ui) \<noteq> []"
  shows "\<exists>ui' w. process_question ui = (ui', Some w) \<and>
     prompt_text w =
       ''CSV Data Context:\<newline>The CSV file has '' @ str_nat (fst (shape d)) @ '' rows and '' @
       str_nat (snd (shape d)) @ '' columns.\<newline>Column names: '' @ join '', '' (columns d) @
       ''\<newline>\<newline>First few rows of the data:\<newline>'' @ head_to_string d @
       ''\<newline>\<newline>Summary statistics:\<newline>'' @ describe_to_string d @
       ''\<newline>\<newline>Question about the data: '' @ strip (input_area ui) @
       ''\<newline>\<newline>Provide a clear and detailed answer based on the CSV data above:'' \<and>
     (fst (shape d) = 10 \<and> columns d = [''a'', ''b''] \<longrightarrow>
        sublist ''10 rows'' (prompt_text w) \<and> sublist ''a, b'' (prompt_text w) \<and>
        sublist (strip (input_area ui)) (prompt_text w))"
proof -
  let ?q = "strip (input_area ui)"
  let ?w = "LLMWorker_init ?q (model_text (model_selector ui))
              (float_of_item (temp_selector ui)) (Some (csv_context_text d))"
  let ?p = "prompt_text ?w"
  obtain ui' where pq: "process_question ui = (ui', Some ?w)"
    using assms by (simp add: process_question_def Let_def)
  have pt: "?p = csv_template (csv_context_text d) ?q"
    by (simp add: prompt_text_def LLMWorker_init_def csv_context_text_nonempty)
  have whole: "?p =
       ''CSV Data Context:\<newline>The CSV file has '' @ str_nat (fst (shape d)) @ '' rows and '' @
       str_nat (snd (shape d)) @ '' columns.\<newline>Column names: '' @ join '', '' (columns d) @
       ''\<newline>\<newline>First few rows of the data:\<newline>'' @ head_to_string d @
       ''\<newline>\<newline>Summary statistics:\<newline>'' @ describe_to_string d @
       ''\<newline>\<newline>Question about the data: '' @ ?q @
       ''\<newline>\<newline>Provide a clear and detailed answer based on the CSV data above:''"
    unfolding pt by (simp add: csv_template_def csv_context_text_def)
  have rows: "sublist ''10 rows'' ?p" if "fst (shape d) = 10"
  proof -
    have "?p = ''CSV Data Context:\<newline>The CSV file has '' @ ''10 rows'' @
        ('' and '' @ str_nat (snd (shape d)) @ '' columns.\<newline>Column names: '' @
         join '', '' (columns d) @
         ''\<newline>\<newline>First few rows of the data:\<newline>'' @ head_to_string d @
         ''\<newline>\<newline>Summary statistics:\<newline>'' @ describe_to_string d @
         ''\<newline>\<newline>Question about the data: '' @ ?q @
         ''\<newline>\<newline>Provide a clear and detailed answer based on the CSV data above:'')"
      unfolding whole using that by (simp add: str_nat_10)
    then show ?thesis by (metis sublist_appendI)
  qed
  have cols: "sublist ''a, b'' ?p" if "columns d = [''a'', ''b'']"
  proof -
    have "?p = (''CSV Data Context:\<newline>The CSV file has '' @ str_nat (fst (shape d)) @
         '' rows and '' @ str_nat (snd (shape d)) @ '' columns.\<newline>Column names: '') @
        ''a, b'' @
        (''\<newline>\<newline>First few rows of the data:\<newline>'' @ head_to_string d @
         ''\<newline>\<newline>Summary statistics:\<newline>'' @ describe_to_string d @
         ''\<newline>\<newline>Question about the data: '' @ ?q @
         ''\<newline>\<newline>Provide a clear and detailed answer based on the CSV data above:'')"
      unfolding whole using that by simp
    then show ?thesis by (metis sublist_appendI)
  qed
  have quest: "sublist ?q ?p"
  proof -
    have "?p = (''CSV Data Context:\<newline>'' @ csv_context_text d @
         ''\<newline>\<newline>Question about the data: '') @ ?q @
        ''\<newline>\<newline>Provide a clear and detailed answer based on the CSV data above:''"
      unfolding pt by (simp add: csv_template_def)
    then show ?thesis by (metis sublist_appendI)
  qed
  from pq whole rows cols quest show ?thesis by blast
qed

theorem process_question_csv_prompt_witness:
  "\<exists>ui' w.
     process_question (LLMInterface_init\<lparr>df := Some d0, input_area := '' Q ''\<rparr>) = (ui', Some w) \<and>
     sublist ''10 rows'' (prompt_text w) \<and> sublist ''a, b'' (prompt_text w) \<and>
     sublist ''Q'' (prompt_text w)"
  using process_question_csv_prompt
    [of "LLMInterface_init\<lparr>df := Some d0, input_area := '' Q ''\<rparr>" d0]
  by (simp add: strip_Q_padded d0_def) blast

text \<open>
  C8. With no dataset loaded and a question that is not blank, \<open>process_question\<close>
  creates a worker without dataset context, and its prompt is the fixed text
  \<open>Question: \<close>, the trimmed question, a line break and \<open>Detailed Answer:\<close>, and
  nothing else.
\<close>

theorem process_question_plain_prompt:
  assumes "df ui = None" and "strip (input_area ui) \<noteq> []"
  shows "\<exists>ui' w. process_question ui = (ui', Some w) \<and> csv_context w = None \<and>
     prompt_text w = ''Question: '' @ strip (input_area ui) @ ''\<newline>Detailed Answer:''"
  using assms
  by (simp add: process_question_def Let_def LLMWorker_init_def prompt_text_def
      question_template_def)

theorem process_question_plain_prompt_witness:
  "\<exists>ui' w. process_question (LLMInterface_init\<lparr>input_area := '' Q ''\<rparr>) = (ui', Some w) \<and>
     csv_context w = None \<and> prompt_text w = ''Question: Q\<newline>Detailed Answer:''"
  using process_question_plain_prompt [of "LLMInterface_init\<lparr>input_area := '' Q ''\<rparr>"]
  by (simp add: strip_Q_padded LLMInterface_init_def)

text \<open>
  C9. Delivering a terminal signal, finished or error alike, enables the submit button,
  the question field and both selectors again and hides the progress bar; an error
  signal shows its text in the response field behind the prefix \<open>Error: \<close>.
\<close>

theorem terminal_signal_rearms:
  "submit_button_enabled (deliver (finished r) ui) \<and>
   input_area_enabled (deliver (finished r) ui) \<and>
   model_selector_enabled (deliver (finished r) ui) \<and>
   temp_selector_enabled (deliver (finished r) ui) \<and>
   \<not> progress_visible (deliver (finished r) ui) \<and>
   submit_button_enabled (deliver (error e) ui) \<and>
   input_area_enabled (deliver (error e) ui) \<and>
   model_selector_enabled (deliver (error e) ui) \<and>
   temp_selector_enabled (deliver (error e) ui) \<and>
   \<not> progress_visible (deliver (error e) ui) \<and>
   output_area (deliver (error e) ui) = ''Error: '' @ e"
  by (simp add: handle_response_def handle_error_def reset_ui_def)

section \<open>Properties of the running application\<close>

text \<open>
  C6, as stated, fails. \<open>process_question\<close> does not look at the worker it replaces and
  the handlers do not know which worker a signal comes from. When it is called while a
  worker runs, the signals of the replaced worker are still delivered: here the result
  of the replaced worker overwrites the result of the latest one.
\<close>

theorem superseded_not_silent:
  "threads superseded_app = [[finished ''Question: Q\<newline>Detailed Answer:''], []] \<and>
   output_area (window superseded_app) =
     ''CSV Data Context:\<newline>The CSV file has 10 rows and 2 columns.\<newline>Column names: a, b\<newline>\<newline>First few rows of the data:\<newline>H\<newline>\<newline>Summary statistics:\<newline>S\<newline>\<newline>Question about the data: Q\<newline>\<newline>Provide a clear and detailed answer based on the CSV data above:'' \<and>
   output_area (window (step echo superseded_app (Deliver 0))) =
     ''Question: Q\<newline>Detailed Answer:'' \<and>
   \<not> superseded_silent echo superseded_app"
  by (simp add: superseded_app_def running_app_eq superseded_silent_def eval_defs)

text \<open>
  C6, amended. The program keeps a single worker in flight by its submit button:
  \<open>process_question\<close> disables it and only a terminal signal enables it again. In every
  state the application reaches through clicks, edits, uploads, plots and deliveries,
  every worker but the latest has delivered all its signals, so a delivery for an older
  worker changes nothing; and while signals are pending the button is disabled and a
  click starts no worker.
\<close>

theorem submit_button_gate:
  assumes "a = foldl (step be) app_init evs"
  shows "list_all (\<lambda>q. q = []) (butlast (threads a)) \<and> superseded_silent be a \<and>
         (pending a \<longrightarrow> \<not> submit_button_enabled (window a) \<and> step be a Click = a)"
proof -
  have sf: "single_flight a" unfolding assms by (rule single_flight_reachable)
  then have "list_all (\<lambda>q. q = []) (butlast (threads a))" by (simp add: single_flight_def)
  moreover from sf have "superseded_silent be a" by (rule single_flight_silent)
  moreover have "\<not> submit_button_enabled (window a) \<and> step be a Click = a" if "pending a"
    using single_flight_pending [OF sf that] by simp
  ultimately show ?thesis by blast
qed

theorem submit_button_gate_witness:
  "pending running_app \<and> \<not> submit_button_enabled (window running_app) \<and>
   step echo running_app Click = running_app"
proof -
  have "pending running_app" by (simp add: running_app_eq pending_def)
  with submit_button_gate [of running_app echo "[Edit ''Q'', Click, Upload (Loaded d0)]"]
  show ?thesis by (simp add: running_app_def)
qed

end
